theory Spec2Isabelle
  imports Main "HOL-Library.AList" "HOL-Library.Char_ord" "HOL-Library.List_Lexorder"
begin

section \<open>JavaScript values\<close>

text \<open>
  The loader of \<^verbatim>\<open>src/index.js\<close> handles model definitions, parameter objects and
  method maps as dynamically typed values. A value is a primitive, a plain object or a
  function object. An object is the list of its own enumerable properties in enumeration
  order; a function object carries an identifier and the properties assigned to it. The
  loader never calls a function it finds in a definition. Numbers are the integral ones and
  \<open>NaN\<close>; a fractional number behaves like any other non-zero number wherever the loader
  looks at one. Strings are lists of 8-bit characters.
\<close>

datatype jsval =
    JUndefined
  | JNull
  | JBool bool
  | JNum int
  | JNaN
  | JStr string
  | JFun nat "(string \<times> jsval) list"
  | JObj "(string \<times> jsval) list"

type_synonym props = "(string \<times> jsval) list"

datatype exn =
    Error string
  | TypeError string
  | Thrown string

text \<open>Truthiness, as tested by \<^verbatim>\<open>if (x)\<close> and \<^verbatim>\<open>!x\<close>.\<close>

fun truthy :: "jsval \<Rightarrow> bool" where
  "truthy JUndefined = False"
| "truthy JNull = False"
| "truthy (JBool b) = b"
| "truthy (JNum n) = (n \<noteq> 0)"
| "truthy JNaN = False"
| "truthy (JStr s) = (s \<noteq> [])"
| "truthy (JFun f ps) = True"
| "truthy (JObj ps) = True"

text \<open>
  A property read \<^verbatim>\<open>x.k\<close>, for the keys the loader reads (\<^verbatim>\<open>schema\<close>,
  \<^verbatim>\<open>noPrimaryKey\<close>, \<^verbatim>\<open>tableName\<close>), none of which is a built-in property of a
  primitive or of a function: reading from \<^verbatim>\<open>undefined\<close> or \<^verbatim>\<open>null\<close> throws, reading
  from another primitive gives \<^verbatim>\<open>undefined\<close>.
\<close>

fun js_get :: "jsval \<Rightarrow> string \<Rightarrow> exn + jsval" where
  "js_get JUndefined k = Inl (TypeError (''Cannot read properties of undefined (reading '' @ k @ '')''))"
| "js_get JNull k = Inl (TypeError (''Cannot read properties of null (reading '' @ k @ '')''))"
| "js_get (JObj ps) k = Inr (case map_of ps k of Some v \<Rightarrow> v | None \<Rightarrow> JUndefined)"
| "js_get (JFun f ps) k = Inr (case map_of ps k of Some v \<Rightarrow> v | None \<Rightarrow> JUndefined)"
| "js_get v k = Inr JUndefined"

text \<open>
  An assignment \<^verbatim>\<open>x.k = v\<close> in strict mode (the file starts with \<^verbatim>\<open>'use strict'\<close>): the
  value of \<open>x\<close> afterwards. An existing property keeps its place, a new one goes last;
  assigning to a property of a primitive throws, and so does assigning to one of the
  built-in properties \<^verbatim>\<open>name\<close>, \<^verbatim>\<open>length\<close>, \<^verbatim>\<open>arguments\<close> and \<^verbatim>\<open>caller\<close> of a function,
  which are read-only. The loader makes the assignment under names other than
  \<^verbatim>\<open>__proto__\<close>, which names the prototype of an object and no property of its own.
\<close>

fun js_set :: "jsval \<Rightarrow> string \<Rightarrow> jsval \<Rightarrow> exn + jsval" where
  "js_set (JObj ps) k v = Inr (JObj (AList.update k v ps))"
| "js_set (JFun f ps) k v =
     (if k \<in> {''name'', ''length'', ''arguments'', ''caller''}
      then Inl (TypeError (''Cannot assign to read only property '' @ k))
      else Inr (JFun f (AList.update k v ps)))"
| "js_set x k v = Inl (TypeError (''Cannot create property '' @ k))"

definition digit :: "nat \<Rightarrow> char" where
  "digit n = ''0123456789'' ! n"

fun decimal :: "nat \<Rightarrow> string" where
  "decimal n = (if n < 10 then [digit n] else decimal (n div 10) @ [digit (n mod 10)])"

declare decimal.simps [simp del]

text \<open>
  \<^verbatim>\<open>Object.entries(x)\<close>: the own enumerable properties. A string has its characters
  under their indices, a number or boolean has none, \<^verbatim>\<open>undefined\<close> and \<^verbatim>\<open>null\<close> throw.
\<close>

fun entries :: "jsval \<Rightarrow> exn + props" where
  "entries JUndefined = Inl (TypeError ''Cannot convert undefined or null to object'')"
| "entries JNull = Inl (TypeError ''Cannot convert undefined or null to object'')"
| "entries (JObj ps) = Inr ps"
| "entries (JFun f ps) = Inr ps"
| "entries (JStr s) = Inr (map (\<lambda>i. (decimal i, JStr [s ! i])) [0..<length s])"
| "entries v = Inr []"

text \<open>
  Objects, plain or function, and the value found in a value along a path of keys.
\<close>

fun is_object :: "jsval \<Rightarrow> bool" where
  "is_object (JObj ps) = True"
| "is_object (JFun f ps) = True"
| "is_object v = False"

fun lookup_path :: "jsval \<Rightarrow> string list \<Rightarrow> jsval option" where
  "lookup_path v [] = Some v"
| "lookup_path (JObj ps) (k # ks) =
     (case map_of ps k of None \<Rightarrow> None | Some v \<Rightarrow> lookup_path v ks)"
| "lookup_path (JFun f ps) (k # ks) =
     (case map_of ps k of None \<Rightarrow> None | Some v \<Rightarrow> lookup_path v ks)"
| "lookup_path v (k # ks) = None"

section \<open>Strings\<close>

text \<open>\<^verbatim>\<open>s.endsWith(t)\<close>.\<close>

definition endsWith :: "string \<Rightarrow> string \<Rightarrow> bool" where
  "endsWith s t = (length t \<le> length s \<and> drop (length s - length t) s = t)"

text \<open>\<^verbatim>\<open>s.split(c)\<close> for a separator of one character: never an empty list.\<close>

fun split_on :: "char \<Rightarrow> string \<Rightarrow> string list" where
  "split_on c [] = [[]]"
| "split_on c (x # xs) =
     (if x = c then [] # split_on c xs
      else (case split_on c xs of [] \<Rightarrow> [[x]] | s # ss \<Rightarrow> (x # s) # ss))"

text \<open>\<^verbatim>\<open>xs.join(sep)\<close> on an array of strings.\<close>

fun join_with :: "string \<Rightarrow> string list \<Rightarrow> string" where
  "join_with sep [] = []"
| "join_with sep [s] = s"
| "join_with sep (s # t # ss) = s @ sep @ join_with sep (t # ss)"

text \<open>
  \<^verbatim>\<open>path.basename(p, ext)\<close> of Node for a name without a directory separator, which is
  what a directory listing holds: the extension is cut off when the name ends with it.
\<close>

definition basename :: "string \<Rightarrow> string \<Rightarrow> string" where
  "basename p ext = (if ext \<noteq> [] \<and> endsWith p ext then take (length p - length ext) p else p)"

section \<open>Definitions, models and the collaborators\<close>

text \<open>
  A model definition is the object a model file returns. The loader reads five of its
  properties: \<^verbatim>\<open>name\<close> (a string, tested for presence with \<^verbatim>\<open>in\<close>), \<^verbatim>\<open>fields\<close>
  (the selector \<open>fieldmap\<close>),
  \<^verbatim>\<open>params\<close>, \<^verbatim>\<open>classMethods\<close> and \<^verbatim>\<open>instanceMethods\<close>; a property that is absent reads
  as \<^verbatim>\<open>undefined\<close>. Every call of a model file gives a definition of its own: no two
  definitions share an object.
\<close>

record modeldef =
  name :: "string option"
  fieldmap :: jsval
  params :: jsval
  classMethods :: jsval
  instanceMethods :: jsval

text \<open>
  A model is the object the ORM's \<^verbatim>\<open>define\<close> returns. It has its attributes (kept by
  the ORM), its properties other than \<^verbatim>\<open>prototype\<close>, each holding a value or a
  definition, and the names that cannot be assigned on it: in strict mode an assignment
  to a read-only property, or to one that has a getter and no setter, throws. On a model
  that is a class these are at least \<^verbatim>\<open>name\<close>, \<^verbatim>\<open>length\<close> and \<^verbatim>\<open>prototype\<close>. The
  property \<^verbatim>\<open>prototype\<close> is absent, or the object the ORM made (its properties and the
  names that cannot be assigned on it), or a value that an assignment to
  \<^verbatim>\<open>model.prototype\<close> has put in its place. The two maps of properties hold the
  properties of the object itself. An assignment under the name \<^verbatim>\<open>__proto__\<close> makes
  no property: it sets the prototype of the object when the value is an object or
  \<^verbatim>\<open>null\<close>, and does nothing otherwise; the maps record under that name the prototype so
  set.
\<close>

definition setsPrototype :: "jsval \<Rightarrow> bool" where
  "setsPrototype v = (is_object v \<or> v = JNull)"

datatype slot = Val jsval | Defn modeldef

datatype proto = Host "string \<rightharpoonup> jsval" "string set" | Replaced jsval

record model =
  attributes :: "string \<rightharpoonup> jsval"
  statics :: "string \<rightharpoonup> slot"
  prototype :: "proto option"
  readonly :: "string set"

text \<open>
  The registry is the object the loader returns, used as a map from names to models. An
  assignment under the name \<^verbatim>\<open>__proto__\<close> sets the prototype of a JavaScript object and
  gives it no key: the map records the assignment, and the keys of the registry are the
  names of the map other than \<^verbatim>\<open>__proto__\<close>.
\<close>

type_synonym registry = "string \<rightharpoonup> model"


text \<open>
  The options of the loader: the fallback schema, whether a logger was supplied, and the
  context value handed to every model file.
\<close>

record options =
  schema :: jsval
  logger :: bool
  opt_context :: jsval

text \<open>
  Every call the loader makes on a collaborator is an event, with its arguments:
  reading the directory, requiring a model file and calling what it exports, the ORM's
  \<^verbatim>\<open>define\<close>, a model's \<^verbatim>\<open>removeAttribute\<close> and \<^verbatim>\<open>getTableName().toString()\<close>, and the
  logger's \<^verbatim>\<open>info\<close>.
\<close>

datatype event =
    Readdir string
  | Require string string jsval registry jsval
  | Define string jsval jsval
  | RemoveAttribute model string
  | GetTableName model
  | Info jsval string

text \<open>
  The collaborators are parameters. The loader is synchronous and alone, so what a
  collaborator answers is a function of the calls made before and of the arguments; any
  call may throw. A model file receives the registry by reference and answers with the
  value it returns (\<open>None\<close> for a falsy value) and the registry as it left it.
  \<^verbatim>\<open>removeAttribute\<close> answers with the model as it left it. What \<^verbatim>\<open>define\<close> does to the
  fields and the parameters it is handed is not followed: of the definition kept on a
  model, the statements about registered models read the name and the two maps of
  methods only. The two functions of the \<^verbatim>\<open>inflection\<close> library are pure.
\<close>

record env =
  readdirSync :: "event list \<Rightarrow> string \<Rightarrow> exn + string list"
  require_call :: "event list \<Rightarrow> string \<Rightarrow> string \<Rightarrow> jsval \<Rightarrow> registry \<Rightarrow> jsval
                    \<Rightarrow> exn + (modeldef option \<times> registry)"
  Sequelize :: jsval
  sequelize_define :: "event list \<Rightarrow> string \<Rightarrow> jsval \<Rightarrow> jsval \<Rightarrow> exn + model"
  removeAttribute :: "event list \<Rightarrow> model \<Rightarrow> string \<Rightarrow> exn + model"
  getTableName :: "event list \<Rightarrow> model \<Rightarrow> exn + string"
  info :: "event list \<Rightarrow> jsval \<Rightarrow> string \<Rightarrow> exn + unit"
  underscore :: "string \<Rightarrow> string"
  pluralize :: "string \<Rightarrow> string"

text \<open>
  A computation of the loader takes the calls made so far and gives its result, or the
  exception it throws, with the calls made by then.
\<close>

type_synonym 'a io = "event list \<Rightarrow> (exn + 'a) \<times> event list"

definition ret :: "'a \<Rightarrow> 'a io" where
  "ret x h = (Inr x, h)"

definition throw :: "exn \<Rightarrow> 'a io" where
  "throw e h = (Inl e, h)"

definition lift :: "exn + 'a \<Rightarrow> 'a io" where
  "lift r h = (r, h)"

definition call :: "event \<Rightarrow> (event list \<Rightarrow> exn + 'a) \<Rightarrow> 'a io" where
  "call ev f h = (f h, h @ [ev])"

definition bind :: "'a io \<Rightarrow> ('a \<Rightarrow> 'b io) \<Rightarrow> 'b io" where
  "bind m k h = (case m h of (Inl e, h') \<Rightarrow> (Inl e, h') | (Inr x, h') \<Rightarrow> k x h')"

section \<open>The vendored merge\<close>

text \<open>
  Modelled from the spec: \<^verbatim>\<open>lodash.defaultsdeep\<close>, which the loader requires and which is
  not under \<^verbatim>\<open>src/\<close>. In the spec's words it recursively merges the defaults into the
  target "without overwriting any key the definition already set (existing values always
  win, at any nesting depth)": a key of the defaults that the target lacks is added with
  the default's value; under a key both have, two objects are merged in the same way and
  any other value of the target stays. The result is the target after the call; a target
  that is a primitive cannot change.
\<close>

fun defaultsDeep :: "jsval \<Rightarrow> jsval \<Rightarrow> jsval"
  and defaultsInto :: "props \<Rightarrow> props \<Rightarrow> props" where
  "defaultsDeep (JObj tps) (JObj sps) = JObj (defaultsInto tps sps)"
| "defaultsDeep (JObj tps) (JFun g sps) = JObj (defaultsInto tps sps)"
| "defaultsDeep (JFun f tps) (JObj sps) = JFun f (defaultsInto tps sps)"
| "defaultsDeep (JFun f tps) (JFun g sps) = JFun f (defaultsInto tps sps)"
| "defaultsDeep t s = t"
| "defaultsInto tps [] = tps"
| "defaultsInto tps ((k, sv) # rest) =
     defaultsInto
       (case map_of tps k of
          None \<Rightarrow> tps @ [(k, sv)]
        | Some tv \<Rightarrow> AList.update k (defaultsDeep tv sv) tps)
       rest"

section \<open>The helpers of the loader\<close>

text \<open>
  The file holds two copies of the module. The helpers \<^verbatim>\<open>getModelFileNames\<close>,
  \<^verbatim>\<open>nameForDefinition\<close>, \<^verbatim>\<open>nameFromFileName\<close>, \<^verbatim>\<open>setupDefinition\<close> and
  \<^verbatim>\<open>defaultTableName\<close> are the same in both (lines 56-86 and 153-183), so each is embedded
  once.
\<close>

definition kModelFileNameSuffix :: string where
  "kModelFileNameSuffix = ''.model.js''"

text \<open>
  \<^verbatim>\<open>getModelFileNames\<close>: the listing of the directory, filtered by the suffix and sorted.
  \<^verbatim>\<open>sort()\<close> without a comparator orders strings by their code units, which is the
  lexicographic order of \<open>string\<close>.
\<close>

definition modelFileNamesOf :: "string list \<Rightarrow> string list" where
  "modelFileNamesOf listing =
     sort (filter (\<lambda>modelFileName. endsWith modelFileName kModelFileNameSuffix) listing)"

definition getModelFileNames :: "env \<Rightarrow> string \<Rightarrow> string list io" where
  "getModelFileNames env directory =
     bind (call (Readdir directory) (\<lambda>h. readdirSync env h directory))
       (\<lambda>listing. ret (modelFileNamesOf listing))"

definition nameFromFileName :: "string \<Rightarrow> string" where
  "nameFromFileName modelFileName = basename modelFileName kModelFileNameSuffix"

definition nameForDefinition :: "modeldef \<Rightarrow> string \<Rightarrow> string" where
  "nameForDefinition definition modelFileName =
     (case name definition of
        Some n \<Rightarrow> n
      | None \<Rightarrow> nameFromFileName modelFileName)"

definition defaultTableName :: "env \<Rightarrow> string \<Rightarrow> string" where
  "defaultTableName env modelName =
     join_with ''_'' (map (pluralize env) (split_on CHR ''_'' (underscore env modelName)))"

text \<open>\<^verbatim>\<open>setupDefinition\<close> changes the definition in place; the model returns it.\<close>

definition setupDefinition :: "env \<Rightarrow> modeldef \<Rightarrow> string \<Rightarrow> modeldef" where
  "setupDefinition env definition modelName =
     (let defaultParams = JObj [(''tableName'', JStr (defaultTableName env modelName))]
      in if \<not> truthy (params definition)
         then definition\<lparr>params := defaultParams\<rparr>
         else definition\<lparr>params := defaultsDeep (params definition) defaultParams\<rparr>)"

section \<open>The loader\<close>

text \<open>
  The steps of the callback given to \<^verbatim>\<open>forEach\<close>, in the order of the source. The
  second copy of the module (lines 110-151) has every step; the first (lines 23-54) has
  all but the two that attach methods.
\<close>

text \<open>
  Lines 37-38 and 124-125:
  \<^verbatim>\<open>if (!definition.params.schema && options.schema) definition.params.schema = options.schema\<close>.
\<close>

definition applySchema :: "options \<Rightarrow> modeldef \<Rightarrow> exn + modeldef" where
  "applySchema options definition =
     (case js_get (params definition) ''schema'' of
        Inl e \<Rightarrow> Inl e
      | Inr s \<Rightarrow>
          if \<not> truthy s \<and> truthy (schema options)
          then (case js_set (params definition) ''schema'' (schema options) of
                  Inl e \<Rightarrow> Inl e
                | Inr p \<Rightarrow> Inr (definition\<lparr>params := p\<rparr>))
          else Inr definition)"

text \<open>
  Lines 42-43 and 129-130:
  \<^verbatim>\<open>if (definition.params.noPrimaryKey) model.removeAttribute('id')\<close>.
\<close>

definition removePrimaryKey :: "env \<Rightarrow> modeldef \<Rightarrow> model \<Rightarrow> model io" where
  "removePrimaryKey env definition model =
     bind (lift (js_get (params definition) ''noPrimaryKey''))
       (\<lambda>flag. if truthy flag
               then call (RemoveAttribute model ''id'') (\<lambda>h. removeAttribute env h model ''id'')
               else ret model)"

text \<open>
  Line 134, \<^verbatim>\<open>model[methodName] = methodFn\<close>: the assignment throws on a name that cannot
  be assigned on the model; under the name \<^verbatim>\<open>prototype\<close> it replaces the prototype, and
  under the name \<^verbatim>\<open>__proto__\<close> a value that is neither an object nor \<^verbatim>\<open>null\<close> is ignored.
\<close>

definition assignStatic :: "model \<Rightarrow> string \<Rightarrow> jsval \<Rightarrow> exn + model" where
  "assignStatic model methodName methodFn =
     (if methodName \<in> readonly model
      then Inl (TypeError (''Cannot assign to read only property '' @ methodName))
      else if methodName = ''prototype''
      then Inr (model\<lparr>prototype := Some (Replaced methodFn)\<rparr>)
      else if methodName = ''__proto__'' \<and> \<not> setsPrototype methodFn
      then Inr model
      else Inr (model\<lparr>statics := (statics model)(methodName \<mapsto> Val methodFn)\<rparr>))"

text \<open>
  Line 139, \<^verbatim>\<open>model.prototype[methodName] = methodFn\<close>: the assignment is made on what
  \<^verbatim>\<open>model.prototype\<close> is at that moment, and throws when that is \<^verbatim>\<open>undefined\<close> or when the
  name cannot be assigned on it. Under the name \<^verbatim>\<open>__proto__\<close> the properties of a value
  that has replaced the prototype stay as they are.
\<close>

definition assignProto :: "model \<Rightarrow> string \<Rightarrow> jsval \<Rightarrow> exn + model" where
  "assignProto model methodName methodFn =
     (case prototype model of
        None \<Rightarrow> Inl (TypeError (''Cannot set properties of undefined (setting '' @ methodName @ '')''))
      | Some (Host ps ro) \<Rightarrow>
          if methodName \<in> ro
          then Inl (TypeError (''Cannot assign to read only property '' @ methodName))
          else if methodName = ''__proto__'' \<and> \<not> setsPrototype methodFn
          then Inr model
          else Inr (model\<lparr>prototype := Some (Host (ps(methodName \<mapsto> methodFn)) ro)\<rparr>)
      | Some (Replaced p) \<Rightarrow>
          if methodName = ''__proto__'' \<and> p \<noteq> JUndefined \<and> p \<noteq> JNull
          then Inr model
          else (case js_set p methodName methodFn of
                  Inl e \<Rightarrow> Inl e
                | Inr p' \<Rightarrow> Inr (model\<lparr>prototype := Some (Replaced p')\<rparr>)))"

text \<open>A \<^verbatim>\<open>for\<close> loop over entries that assigns each one, and stops where one throws.\<close>

fun assignAll ::
  "(model \<Rightarrow> string \<Rightarrow> jsval \<Rightarrow> exn + model) \<Rightarrow> props \<Rightarrow> model \<Rightarrow> exn + model" where
  "assignAll assign [] model = Inr model"
| "assignAll assign ((methodName, methodFn) # es) model =
     (case assign model methodName methodFn of
        Inl e \<Rightarrow> Inl e
      | Inr model' \<Rightarrow> assignAll assign es model')"

text \<open>
  Lines 132-135: every entry of \<^verbatim>\<open>definition.classMethods\<close> is assigned to the model,
  \<^verbatim>\<open>model[methodName] = methodFn\<close>.
\<close>

definition attachClassMethods :: "modeldef \<Rightarrow> model \<Rightarrow> exn + model" where
  "attachClassMethods definition model =
     (if truthy (classMethods definition)
      then (case entries (classMethods definition) of
              Inl e \<Rightarrow> Inl e
            | Inr es \<Rightarrow> assignAll assignStatic es model)
      else Inr model)"

text \<open>
  Lines 137-140: every entry of \<^verbatim>\<open>definition.instanceMethods\<close> is assigned to the
  prototype, \<^verbatim>\<open>model.prototype[methodName] = methodFn\<close>.
\<close>

definition attachInstanceMethods :: "modeldef \<Rightarrow> model \<Rightarrow> exn + model" where
  "attachInstanceMethods definition model =
     (if truthy (instanceMethods definition)
      then (case entries (instanceMethods definition) of
              Inl e \<Rightarrow> Inl e
            | Inr es \<Rightarrow> assignAll assignProto es model)
      else Inr model)"

text \<open>The entries of a method map that the loops go through: none for a falsy map.\<close>

definition methodsOf :: "jsval \<Rightarrow> props" where
  "methodsOf v = (if truthy v then (case entries v of Inr es \<Rightarrow> es | Inl e \<Rightarrow> []) else [])"

text \<open>
  Lines 47 and 144: \<^verbatim>\<open>model.definition = definition\<close>, which throws on a model on which
  \<^verbatim>\<open>definition\<close> cannot be assigned.
\<close>

definition exposeDefinition :: "modeldef \<Rightarrow> model \<Rightarrow> exn + model" where
  "exposeDefinition definition model =
     (if ''definition'' \<in> readonly model
      then Inl (TypeError ''Cannot assign to read only property definition'')
      else Inr (model\<lparr>statics := (statics model)(''definition'' \<mapsto> Defn definition)\<rparr>))"

text \<open>
  Lines 49-50 and 146-147: with a logger, one record per model. The table name is asked
  for twice, once for the record and once for the message.
\<close>

definition logLoaded :: "env \<Rightarrow> options \<Rightarrow> string \<Rightarrow> model \<Rightarrow> unit io" where
  "logLoaded env options modelName model =
     (if logger options
      then bind (call (GetTableName model) (\<lambda>h. getTableName env h model))
             (\<lambda>table. bind (call (GetTableName model) (\<lambda>h. getTableName env h model))
               (\<lambda>table'.
                  let record = JObj [(''modelName'', JStr modelName), (''table'', JStr table)];
                      message = ''Loaded model: '' @ modelName @ '' ('' @ table' @ '' table)''
                  in call (Info record message) (\<lambda>h. info env h record message)))
      else ret ())"

text \<open>
  Lines 28-34 and 115-121: the file is required and what it exports is called with the
  type namespace, the registry and the context; a falsy return value is an error.
\<close>

definition requireDefinition ::
  "env \<Rightarrow> options \<Rightarrow> string \<Rightarrow> registry \<Rightarrow> string \<Rightarrow> (modeldef \<times> registry) io" where
  "requireDefinition env options directory models modelFileName =
     bind (call (Require directory modelFileName (Sequelize env) models (opt_context options))
             (\<lambda>h. require_call env h directory modelFileName (Sequelize env) models
                     (opt_context options)))
       (\<lambda>(returned, models).
          case returned of
            None \<Rightarrow> throw (Error (''Missing return value from model file, '' @ modelFileName))
          | Some definition \<Rightarrow> ret (definition, models))"

text \<open>
  Lines 40 and 127:
  \<^verbatim>\<open>sequelize.define(modelName, definition.fields, definition.params)\<close>.
\<close>

definition defineModel :: "env \<Rightarrow> string \<Rightarrow> modeldef \<Rightarrow> model io" where
  "defineModel env modelName definition =
     call (Define modelName (fieldmap definition) (params definition))
       (\<lambda>h. sequelize_define env h modelName (fieldmap definition) (params definition))"

text \<open>
  The callback of the second copy (lines 114-148). The registry holds a reference to the
  model, so it sees every later change of it; the model stores the model in the registry
  once the callback is through, which is the same for a callback that returns.
\<close>

definition loadModel ::
  "env \<Rightarrow> options \<Rightarrow> string \<Rightarrow> registry \<Rightarrow> string \<Rightarrow> registry io" where
  "loadModel env options directory models modelFileName =
     bind (requireDefinition env options directory models modelFileName)
       (\<lambda>(definition, models).
     let modelName = nameForDefinition definition modelFileName in
     bind (lift (applySchema options (setupDefinition env definition modelName)))
       (\<lambda>definition.
     bind (defineModel env modelName definition)
       (\<lambda>model.
     bind (removePrimaryKey env definition model)
       (\<lambda>model.
     bind (lift (attachClassMethods definition model))
       (\<lambda>model.
     bind (lift (attachInstanceMethods definition model))
       (\<lambda>model.
     bind (lift (exposeDefinition definition model))
       (\<lambda>model.
     bind (logLoaded env options modelName model)
       (\<lambda>_. ret (models(modelName \<mapsto> model))))))))))"

text \<open>The callback of the first copy (lines 27-51).\<close>

definition loadModel_v1 ::
  "env \<Rightarrow> options \<Rightarrow> string \<Rightarrow> registry \<Rightarrow> string \<Rightarrow> registry io" where
  "loadModel_v1 env options directory models modelFileName =
     bind (requireDefinition env options directory models modelFileName)
       (\<lambda>(definition, models).
     let modelName = nameForDefinition definition modelFileName in
     bind (lift (applySchema options (setupDefinition env definition modelName)))
       (\<lambda>definition.
     bind (defineModel env modelName definition)
       (\<lambda>model.
     bind (removePrimaryKey env definition model)
       (\<lambda>model.
     bind (lift (exposeDefinition definition model))
       (\<lambda>model.
     bind (logLoaded env options modelName model)
       (\<lambda>_. ret (models(modelName \<mapsto> model))))))))"

text \<open>\<^verbatim>\<open>forEach\<close> over the file names, with the registry the callback closes over.\<close>

fun forEach :: "(registry \<Rightarrow> string \<Rightarrow> registry io) \<Rightarrow> string list \<Rightarrow> registry \<Rightarrow> registry io" where
  "forEach body [] models = ret models"
| "forEach body (modelFileName # rest) models =
     bind (body models modelFileName) (\<lambda>models. forEach body rest models)"

text \<open>
  The exported function, second copy (lines 110-151) and first copy (lines 23-54): the
  result is the registry or the exception, with the calls made.
\<close>

definition loader :: "env \<Rightarrow> options \<Rightarrow> string \<Rightarrow> (exn + registry) \<times> event list" where
  "loader env options directory =
     bind (getModelFileNames env directory)
       (\<lambda>modelFileNames. forEach (loadModel env options directory) modelFileNames Map.empty) []"

definition loader_v1 :: "env \<Rightarrow> options \<Rightarrow> string \<Rightarrow> (exn + registry) \<times> event list" where
  "loader_v1 env options directory =
     bind (getModelFileNames env directory)
       (\<lambda>modelFileNames. forEach (loadModel_v1 env options directory) modelFileNames Map.empty) []"

section \<open>Reading the calls\<close>



section \<open>Sample collaborators\<close>

text \<open>
  Concrete collaborators, on which the theorems below are exercised. The two inflection
  functions are the simplest ones that agree with the library on the words used here:
  an upper-case letter starts a new word, and the plural adds an \<open>s\<close>.
\<close>

definition sample_lower :: "char \<Rightarrow> char option" where
  "sample_lower c = map_of (zip ''ABCDEFGHIJKLMNOPQRSTUVWXYZ'' ''abcdefghijklmnopqrstuvwxyz'') c"

fun sample_underscore_chars :: "string \<Rightarrow> string" where
  "sample_underscore_chars [] = []"
| "sample_underscore_chars (c # cs) =
     (case sample_lower c of
        Some l \<Rightarrow> CHR ''_'' # l # sample_underscore_chars cs
      | None \<Rightarrow> c # sample_underscore_chars cs)"

definition sample_underscore :: "string \<Rightarrow> string" where
  "sample_underscore s =
     (case sample_underscore_chars s of
        [] \<Rightarrow> []
      | c # cs \<Rightarrow> if c = CHR ''_'' then cs else c # cs)"

definition sample_pluralize :: "string \<Rightarrow> string" where
  "sample_pluralize s = s @ ''s''"

text \<open>
  Four model files: \<^verbatim>\<open>a.model.js\<close> returns a definition without a name and without
  parameters, with one class method and one instance method; \<^verbatim>\<open>b.model.js\<close> returns a
  named definition with its own table name and schema and the no-primary-key flag;
  \<^verbatim>\<open>c.model.js\<close> returns nothing; \<^verbatim>\<open>d.model.js\<close> returns a definition named \<open>a\<close>. No
  file touches the registry.
\<close>

definition sample_require ::
  "event list \<Rightarrow> string \<Rightarrow> string \<Rightarrow> jsval \<Rightarrow> registry \<Rightarrow> jsval
     \<Rightarrow> exn + (modeldef option \<times> registry)" where
  "sample_require h directory modelFileName ns models c =
     (if modelFileName = ''a.model.js'' then
        Inr (Some \<lparr>name = None, fieldmap = JObj [(''email'', JStr ''STRING'')],
                   params = JUndefined,
                   classMethods = JObj [(''findByEmail'', JFun 1 [])],
                   instanceMethods = JObj [(''greet'', JFun 2 [])]\<rparr>, models)
      else if modelFileName = ''b.model.js'' then
        Inr (Some \<lparr>name = Some ''UserAccount'', fieldmap = JObj [],
                   params = JObj [(''tableName'', JStr ''custom''), (''schema'', JStr ''private''),
                                  (''noPrimaryKey'', JBool True)],
                   classMethods = JUndefined, instanceMethods = JUndefined\<rparr>, models)
      else if modelFileName = ''c.model.js'' then Inr (None, models)
      else if modelFileName = ''d.model.js'' then
        Inr (Some \<lparr>name = Some ''a'', fieldmap = JObj [], params = JObj [],
                   classMethods = JUndefined, instanceMethods = JUndefined\<rparr>, models)
      else Inl (Thrown ''Cannot find module''))"

text \<open>
  An ORM whose models start with the attribute \<open>id\<close>, their name and an empty
  prototype, and on which every name can be assigned.
\<close>

definition sample_define :: "event list \<Rightarrow> string \<Rightarrow> jsval \<Rightarrow> jsval \<Rightarrow> exn + model" where
  "sample_define h modelName fs ps =
     Inr \<lparr>attributes = [''id'' \<mapsto> JStr ''INTEGER''],
          statics = [''name'' \<mapsto> Val (JStr modelName)],
          prototype = Some (Host Map.empty {}),
          readonly = {}\<rparr>"

definition sample_removeAttribute :: "event list \<Rightarrow> model \<Rightarrow> string \<Rightarrow> exn + model" where
  "sample_removeAttribute h m a = Inr (m\<lparr>attributes := (attributes m)(a := None)\<rparr>)"

definition sample_env :: env where
  "sample_env =
     \<lparr>readdirSync = (\<lambda>h directory. Inr [''b.model.js'', ''notes.txt'', ''a.model.js'']),
      require_call = sample_require,
      Sequelize = JObj [],
      sequelize_define = sample_define,
      removeAttribute = sample_removeAttribute,
      getTableName = (\<lambda>h m. Inr ''t''),
      info = (\<lambda>h r msg. Inr ()),
      underscore = sample_underscore,
      pluralize = sample_pluralize\<rparr>"

definition sample_options :: options where
  "sample_options = \<lparr>schema = JStr ''public'', logger = True, opt_context = JNull\<rparr>"

text \<open>
  Three more directories for the same files: one that also holds \<^verbatim>\<open>c.model.js\<close>, one
  that holds \<^verbatim>\<open>a.model.js\<close> and \<^verbatim>\<open>d.model.js\<close>, whose models are both named \<open>a\<close>, and
  one that holds \<^verbatim>\<open>b.model.js\<close> alone and knows no other file.
\<close>

definition broken_env :: env where
  "broken_env = sample_env\<lparr>readdirSync := (\<lambda>h directory. Inr [''c.model.js'', ''a.model.js''])\<rparr>"


definition plain_env :: env where
  "plain_env =
     sample_env\<lparr>readdirSync := (\<lambda>h directory. Inr [''b.model.js'']),
                require_call := (\<lambda>h directory modelFileName ns models c.
                  if modelFileName = ''b.model.js''
                  then sample_require h directory modelFileName ns models c
                  else Inl (Thrown ''Cannot find module''))\<rparr>"






section \<open>Splitting and joining\<close>

lemma split_on_not_Nil: "split_on c s \<noteq> []"
  by (induction s) (auto split: list.splits)

lemma join_with_Cons_head: "join_with sep ((x # s) # ss) = x # join_with sep (s # ss)"
  by (cases ss) auto

lemma join_split_on: "join_with [c] (split_on c s) = s"
proof (induction s)
  case Nil
  show ?case by simp
next
  case (Cons x xs)
  obtain s ss where sp: "split_on c xs = s # ss"
    using split_on_not_Nil [of c xs] by (cases "split_on c xs") auto
  show ?case
  proof (cases "x = c")
    case True
    with Cons sp show ?thesis by simp
  next
    case False
    with Cons sp show ?thesis by (simp add: join_with_Cons_head)
  qed
qed

lemma split_on_no_sep: "s \<in> set (split_on c xs) \<Longrightarrow> c \<notin> set s"
  by (induction xs arbitrary: s) (auto split: if_splits list.splits)

text \<open>
  C1. The default table name is the underscored model name, split on the underscore, each
  segment pluralized on its own, and the segments joined with the underscore again: the
  segments are those of the underscored name (joined, they give it back, and none holds
  an underscore). With an inflection library that turns \<open>UserAccount\<close> into
  \<open>user_account\<close>, \<open>user\<close> into \<open>users\<close> and \<open>account\<close> into \<open>accounts\<close>, the model
  name \<open>UserAccount\<close> gives the table name \<open>users_accounts\<close>.
\<close>

theorem defaultTableName_segments:
  "(\<exists>segments.
      segments = split_on CHR ''_'' (underscore env modelName)
      \<and> join_with ''_'' segments = underscore env modelName
      \<and> (\<forall>s \<in> set segments. CHR ''_'' \<notin> set s)
      \<and> defaultTableName env modelName = join_with ''_'' (map (pluralize env) segments))
   \<and> (underscore env ''UserAccount'' = ''user_account''
        \<and> pluralize env ''user'' = ''users'' \<and> pluralize env ''account'' = ''accounts''
      \<longrightarrow> defaultTableName env ''UserAccount'' = ''users_accounts'')"
proof (intro conjI impI)
  show "\<exists>segments.
      segments = split_on CHR ''_'' (underscore env modelName)
      \<and> join_with ''_'' segments = underscore env modelName
      \<and> (\<forall>s \<in> set segments. CHR ''_'' \<notin> set s)
      \<and> defaultTableName env modelName = join_with ''_'' (map (pluralize env) segments)"
    using join_split_on [of "CHR ''_''" "underscore env modelName"]
    by (auto simp: defaultTableName_def dest: split_on_no_sep)
next
  assume "underscore env ''UserAccount'' = ''user_account''
        \<and> pluralize env ''user'' = ''users'' \<and> pluralize env ''account'' = ''accounts''"
  then show "defaultTableName env ''UserAccount'' = ''users_accounts''"
    by (simp add: defaultTableName_def)
qed

theorem defaultTableName_segments_witness:
  "underscore sample_env ''UserAccount'' = ''user_account''
   \<and> pluralize sample_env ''user'' = ''users'' \<and> pluralize sample_env ''account'' = ''accounts''
   \<and> defaultTableName sample_env ''UserAccount'' = ''users_accounts''"
proof -
  have h: "underscore sample_env ''UserAccount'' = ''user_account''
      \<and> pluralize sample_env ''user'' = ''users'' \<and> pluralize sample_env ''account'' = ''accounts''"
    by (simp add: sample_env_def sample_underscore_def sample_lower_def sample_pluralize_def)
  show ?thesis
    using h defaultTableName_segments [of sample_env "''UserAccount''"] by blast
qed

section \<open>Defaults of the parameters\<close>

lemma defaultsDeep_keeps:
  "lookup_path t p = Some v \<Longrightarrow> \<not> is_object v \<Longrightarrow> lookup_path (defaultsDeep t s) p = Some v"
  "p \<noteq> [] \<Longrightarrow> lookup_path (JObj tps) p = Some v \<Longrightarrow> \<not> is_object v \<Longrightarrow> lookup_path (JObj (defaultsInto tps sps)) p = Some v"
proof (induction t s and tps sps arbitrary: p v and p v rule: defaultsDeep_defaultsInto.induct)
  case (1 tps sps)
  show ?case
  proof (cases p)
    case Nil
    with 1 show ?thesis by auto
  next
    case (Cons a list)
    with "1.IH" [of p v] "1.prems" show ?thesis by simp
  qed
next
  case (2 tps g sps)
  show ?case
  proof (cases p)
    case Nil
    with 2 show ?thesis by auto
  next
    case (Cons a list)
    with "2.IH" [of p v] "2.prems" show ?thesis by simp
  qed
next
  case (3 f tps sps)
  show ?case
  proof (cases p)
    case Nil
    with 3 show ?thesis by auto
  next
    case (Cons a list)
    with "3.IH" [of p v] "3.prems" show ?thesis by simp
  qed
next
  case (4 f tps g sps)
  show ?case
  proof (cases p)
    case Nil
    with 4 show ?thesis by auto
  next
    case (Cons a list)
    with "4.IH" [of p v] "4.prems" show ?thesis by simp
  qed
next
  case (7 tps k sv rest)
  obtain k' ks where p: "p = k' # ks" using 7 by (cases p) auto
  let ?tps' = "(case map_of tps k of None \<Rightarrow> tps @ [(k, sv)]
        | Some tv \<Rightarrow> AList.update k (defaultsDeep tv sv) tps)"
  have "lookup_path (JObj ?tps') p = Some v"
  proof (cases "map_of tps k")
    case None
    with 7 p show ?thesis by (auto simp: map_add_def split: option.splits)
  next
    case (Some tv)
    show ?thesis
    proof (cases "k' = k")
      case True
      with 7 p Some have "lookup_path tv ks = Some v" by simp
      from "7.IH"(1) [OF Some this "7.prems"(3)]
      show ?thesis using Some p True by (simp add: update_conv')
    next
      case False
      with 7 p Some show ?thesis by (simp add: update_conv')
    qed
  qed
  from "7.IH"(2) [OF "7.prems"(1) this "7.prems"(3)]
  show ?case by simp
qed auto

lemma defaultsDeep_leaf: "defaultsDeep v (JStr t) = v"
  by (cases v) auto

lemma update_same: "map_of ps k = Some v \<Longrightarrow> AList.update k v ps = ps"
  by (induction ps) auto

lemma defaultsInto_leaf:
  "defaultsInto ps [(k, JStr t)] = (if map_of ps k = None then ps @ [(k, JStr t)] else ps)"
  by (auto simp: defaultsDeep_leaf update_same split: option.splits)

lemma setupDefinition_params:
  "params (setupDefinition env d n) =
     (if \<not> truthy (params d) then JObj [(''tableName'', JStr (defaultTableName env n))]
      else defaultsDeep (params d) (JObj [(''tableName'', JStr (defaultTableName env n))]))"
  by (simp add: setupDefinition_def Let_def)

lemma setupDefinition_other_fields:
  "name (setupDefinition env d n) = name d"
  "fieldmap (setupDefinition env d n) = fieldmap d"
  "classMethods (setupDefinition env d n) = classMethods d"
  "instanceMethods (setupDefinition env d n) = instanceMethods d"
  by (simp_all add: setupDefinition_def Let_def)

lemma lookup_path_append_key:
  "p \<noteq> [] \<Longrightarrow> lookup_path (JObj ps) p = Some v \<Longrightarrow> lookup_path (JObj (ps @ [(k, w)])) p = Some v"
  "p \<noteq> [] \<Longrightarrow> lookup_path (JFun f ps) p = Some v \<Longrightarrow> lookup_path (JFun f (ps @ [(k, w)])) p = Some v"
  by (cases p; auto simp: map_add_def split: option.splits)+

lemma setupDefinition_keeps_paths:
  assumes "is_object (params d)" "p \<noteq> []" "lookup_path (params d) p = Some v"
  shows "lookup_path (params (setupDefinition env d n)) p = Some v"
proof (cases "params d")
  case (JObj ps)
  with assms show ?thesis
    by (simp add: setupDefinition_params defaultsInto_leaf lookup_path_append_key
        del: defaultsInto.simps)
next
  case (JFun f ps)
  with assms show ?thesis
    by (simp add: setupDefinition_params defaultsInto_leaf lookup_path_append_key
        del: defaultsInto.simps)
qed (use assms in auto)

lemma setupDefinition_get_other:
  "k \<noteq> ''tableName'' \<Longrightarrow> js_get (params (setupDefinition env d n)) k =
     (if truthy (params d) then js_get (params d) k else Inr JUndefined)"
  by (cases "params d")
    (auto simp: setupDefinition_params defaultsInto_leaf map_add_def
      simp del: defaultsInto.simps split: option.splits)

lemma setupDefinition_is_object:
  "\<not> truthy (params d) \<or> is_object (params d) \<Longrightarrow> is_object (params (setupDefinition env d n))"
  by (cases "params d") (auto simp: setupDefinition_params simp del: defaultsInto.simps)

text \<open>
  C3. A definition without a params object (any falsy \<^verbatim>\<open>params\<close>) gets a fresh one that
  holds the default table name and nothing else. A definition with a params object keeps
  every value it set, under every path of keys: the merge of the default parameters adds
  the table name only where the definition has none, so \<^verbatim>\<open>{tableName: "custom"}\<close> keeps
  \<^verbatim>\<open>"custom"\<close>. The merge itself, whatever the defaults, keeps every value that is not
  an object at every depth of the target.
\<close>

theorem setupDefinition_defaults:
  "(\<not> truthy (params d) \<longrightarrow>
      params (setupDefinition env d n) = JObj [(''tableName'', JStr (defaultTableName env n))])
   \<and> (is_object (params d) \<longrightarrow>
        (\<forall>p v. p \<noteq> [] \<and> lookup_path (params d) p = Some v
           \<longrightarrow> lookup_path (params (setupDefinition env d n)) p = Some v))
   \<and> (params d = JObj [(''tableName'', JStr ''custom'')] \<longrightarrow>
        js_get (params (setupDefinition env d n)) ''tableName'' = Inr (JStr ''custom''))
   \<and> (\<forall>t s p v. lookup_path t p = Some v \<and> \<not> is_object v
          \<longrightarrow> lookup_path (defaultsDeep t s) p = Some v)"
proof (intro conjI impI allI)
  assume "\<not> truthy (params d)"
  then show "params (setupDefinition env d n) = JObj [(''tableName'', JStr (defaultTableName env n))]"
    by (simp add: setupDefinition_params)
next
  fix p v
  assume "is_object (params d)" and "p \<noteq> [] \<and> lookup_path (params d) p = Some v"
  then show "lookup_path (params (setupDefinition env d n)) p = Some v"
    by (simp add: setupDefinition_keeps_paths)
next
  assume "params d = JObj [(''tableName'', JStr ''custom'')]"
  then show "js_get (params (setupDefinition env d n)) ''tableName'' = Inr (JStr ''custom'')"
    by (simp add: setupDefinition_params)
next
  fix t s p v
  assume "lookup_path t p = Some v \<and> \<not> is_object v"
  then show "lookup_path (defaultsDeep t s) p = Some v"
    by (simp add: defaultsDeep_keeps(1))
qed

theorem setupDefinition_defaults_witness:
  "js_get (params (setupDefinition sample_env
       \<lparr>name = None, fieldmap = JObj [], params = JObj [(''tableName'', JStr ''custom'')],
        classMethods = JUndefined, instanceMethods = JUndefined\<rparr> ''UserAccount'')) ''tableName''
     = Inr (JStr ''custom'')
   \<and> lookup_path (params (setupDefinition sample_env
       \<lparr>name = None, fieldmap = JObj [],
        params = JObj [(''indexes'', JObj [(''unique'', JBool True)])],
        classMethods = JUndefined, instanceMethods = JUndefined\<rparr> ''UserAccount''))
       [''indexes'', ''unique''] = Some (JBool True)
   \<and> params (setupDefinition sample_env
       \<lparr>name = None, fieldmap = JObj [], params = JUndefined,
        classMethods = JUndefined, instanceMethods = JUndefined\<rparr> ''UserAccount'')
     = JObj [(''tableName'', JStr (defaultTableName sample_env ''UserAccount''))]"
  using
    setupDefinition_defaults [of "\<lparr>name = None, fieldmap = JObj [],
        params = JObj [(''tableName'', JStr ''custom'')],
        classMethods = JUndefined, instanceMethods = JUndefined\<rparr>" sample_env "''UserAccount''"]
    setupDefinition_defaults [of "\<lparr>name = None, fieldmap = JObj [],
        params = JObj [(''indexes'', JObj [(''unique'', JBool True)])],
        classMethods = JUndefined, instanceMethods = JUndefined\<rparr>" sample_env "''UserAccount''"]
    setupDefinition_defaults [of "\<lparr>name = None, fieldmap = JObj [], params = JUndefined,
        classMethods = JUndefined, instanceMethods = JUndefined\<rparr>" sample_env "''UserAccount''"]
  by simp

section \<open>The schema fallback\<close>

lemma js_set_get_same:
  "js_set x k v = Inr x' \<Longrightarrow> js_get x' k = Inr v"
  by (cases x) (auto simp: update_conv' split: if_splits)

lemma js_get_object: "is_object x \<Longrightarrow> \<exists>v. js_get x k = Inr v"
  by (cases x) auto

lemma js_set_object: "is_object x \<Longrightarrow> \<exists>x'. js_set x ''schema'' v = Inr x'"
  by (cases x) auto

lemma js_get_truthy_object: "js_get x k = Inr v \<Longrightarrow> truthy v \<Longrightarrow> is_object x"
  by (cases x) auto

text \<open>
  C4 (amended). The global schema is a fallback behind a truthiness test: a truthy schema
  set by the definition is never replaced; where the definition has no schema, or a falsy
  one (\<^verbatim>\<open>undefined\<close>, \<^verbatim>\<open>null\<close>, \<^verbatim>\<open>false\<close>, \<^verbatim>\<open>0\<close>, \<^verbatim>\<open>NaN\<close>, the empty string), a
  truthy global schema is assigned; a falsy global schema changes nothing. The step
  cannot fail on a definition whose params is absent, falsy or an object.
\<close>

theorem applySchema_fallback:
  "(\<forall>d'. applySchema options (setupDefinition env d n) = Inr d' \<longrightarrow>
      (\<forall>v. js_get (params d) ''schema'' = Inr v \<and> truthy v
         \<longrightarrow> js_get (params d') ''schema'' = Inr v)
    \<and> ((\<forall>v. js_get (params d) ''schema'' = Inr v \<longrightarrow> \<not> truthy v) \<and> truthy (schema options)
         \<longrightarrow> js_get (params d') ''schema'' = Inr (schema options))
    \<and> (\<not> truthy (schema options) \<longrightarrow> d' = setupDefinition env d n))
   \<and> (\<not> truthy (params d) \<or> is_object (params d)
        \<longrightarrow> (\<exists>d'. applySchema options (setupDefinition env d n) = Inr d'))"
proof (intro conjI allI impI)
  fix d' v
  assume run: "applySchema options (setupDefinition env d n) = Inr d'"
    and v: "js_get (params d) ''schema'' = Inr v \<and> truthy v"
  then have obj: "is_object (params d)" using js_get_truthy_object by blast
  then have "truthy (params d)" by (cases "params d") auto
  then have "js_get (params (setupDefinition env d n)) ''schema'' = Inr v"
    using v by (simp add: setupDefinition_get_other)
  with run v show "js_get (params d') ''schema'' = Inr v"
    by (auto simp: applySchema_def split: sum.splits if_splits)
next
  fix d'
  assume run: "applySchema options (setupDefinition env d n) = Inr d'"
    and v: "(\<forall>v. js_get (params d) ''schema'' = Inr v \<longrightarrow> \<not> truthy v) \<and> truthy (schema options)"
  have "\<exists>s. js_get (params (setupDefinition env d n)) ''schema'' = Inr s \<and> \<not> truthy s"
    using v by (cases "truthy (params d)") (auto simp: setupDefinition_get_other split: sum.splits, (cases "params d"; simp)+)
  with run v show "js_get (params d') ''schema'' = Inr (schema options)"
    by (auto simp: applySchema_def js_set_get_same split: sum.splits if_splits)
next
  fix d'
  assume "applySchema options (setupDefinition env d n) = Inr d'" "\<not> truthy (schema options)"
  then show "d' = setupDefinition env d n"
    by (auto simp: applySchema_def split: sum.splits if_splits)
next
  assume "\<not> truthy (params d) \<or> is_object (params d)"
  then have obj: "is_object (params (setupDefinition env d n))"
    by (rule setupDefinition_is_object)
  from js_get_object [OF obj, of "''schema''"] js_set_object [OF obj, of "schema options"]
  show "\<exists>d'. applySchema options (setupDefinition env d n) = Inr d'"
    by (auto simp: applySchema_def split: sum.splits)
qed

theorem applySchema_fallback_witness:
  "applySchema sample_options
     (setupDefinition sample_env
        \<lparr>name = None, fieldmap = JObj [], params = JObj [(''schema'', JStr ''private'')],
         classMethods = JUndefined, instanceMethods = JUndefined\<rparr> ''m'')
   = Inr \<lparr>name = None, fieldmap = JObj [],
          params = JObj [(''schema'', JStr ''private''), (''tableName'', JStr ''ms'')],
          classMethods = JUndefined, instanceMethods = JUndefined\<rparr>
   \<and> js_get (params \<lparr>name = None, fieldmap = JObj [],
          params = JObj [(''schema'', JStr ''private''), (''tableName'', JStr ''ms'')],
          classMethods = JUndefined, instanceMethods = JUndefined\<rparr>) ''schema''
       = Inr (JStr ''private'')
   \<and> applySchema sample_options
     (setupDefinition sample_env
        \<lparr>name = None, fieldmap = JObj [], params = JUndefined,
         classMethods = JUndefined, instanceMethods = JUndefined\<rparr> ''m'')
   = Inr \<lparr>name = None, fieldmap = JObj [],
          params = JObj [(''tableName'', JStr ''ms''), (''schema'', JStr ''public'')],
          classMethods = JUndefined, instanceMethods = JUndefined\<rparr>
   \<and> js_get (params \<lparr>name = None, fieldmap = JObj [],
          params = JObj [(''tableName'', JStr ''ms''), (''schema'', JStr ''public'')],
          classMethods = JUndefined, instanceMethods = JUndefined\<rparr>) ''schema''
       = Inr (schema sample_options)"
proof -
  let ?private = "\<lparr>name = None, fieldmap = JObj [], params = JObj [(''schema'', JStr ''private'')],
         classMethods = JUndefined, instanceMethods = JUndefined\<rparr>"
  let ?none = "\<lparr>name = None, fieldmap = JObj [], params = JUndefined,
         classMethods = JUndefined, instanceMethods = JUndefined\<rparr>"
  have run1: "applySchema sample_options (setupDefinition sample_env ?private ''m'')
     = Inr \<lparr>name = None, fieldmap = JObj [],
          params = JObj [(''schema'', JStr ''private''), (''tableName'', JStr ''ms'')],
          classMethods = JUndefined, instanceMethods = JUndefined\<rparr>"
    by (simp add: applySchema_def setupDefinition_def defaultTableName_def sample_env_def
        sample_options_def sample_underscore_def sample_lower_def sample_pluralize_def)
  have run2: "applySchema sample_options (setupDefinition sample_env ?none ''m'')
     = Inr \<lparr>name = None, fieldmap = JObj [],
          params = JObj [(''tableName'', JStr ''ms''), (''schema'', JStr ''public'')],
          classMethods = JUndefined, instanceMethods = JUndefined\<rparr>"
    by (simp add: applySchema_def setupDefinition_def defaultTableName_def sample_env_def
        sample_options_def sample_underscore_def sample_lower_def sample_pluralize_def)
  have t: "truthy (schema sample_options)" by (simp add: sample_options_def)
  from applySchema_fallback [of sample_options sample_env ?private "''m''"] run1
  have a: "js_get (params \<lparr>name = None, fieldmap = JObj [],
          params = JObj [(''schema'', JStr ''private''), (''tableName'', JStr ''ms'')],
          classMethods = JUndefined, instanceMethods = JUndefined\<rparr>) ''schema''
       = Inr (JStr ''private'')"
    by simp
  from applySchema_fallback [of sample_options sample_env ?none "''m''"] run2 t
  have b: "js_get (params \<lparr>name = None, fieldmap = JObj [],
          params = JObj [(''tableName'', JStr ''ms''), (''schema'', JStr ''public'')],
          classMethods = JUndefined, instanceMethods = JUndefined\<rparr>) ''schema''
       = Inr (schema sample_options)"
    by simp
  from run1 a run2 b show ?thesis by blast
qed

theorem schema_override_counterexample:
  "applySchema \<lparr>schema = JStr ''public'', logger = False, opt_context = JUndefined\<rparr>
     (setupDefinition sample_env
        \<lparr>name = None, fieldmap = JObj [], params = JObj [(''schema'', JStr '''')],
         classMethods = JUndefined, instanceMethods = JUndefined\<rparr> ''m'')
   = Inr \<lparr>name = None, fieldmap = JObj [],
          params = JObj [(''schema'', JStr ''public''), (''tableName'', JStr ''ms'')],
          classMethods = JUndefined, instanceMethods = JUndefined\<rparr>"
  by (simp add: applySchema_def setupDefinition_def defaultTableName_def sample_env_def
      sample_underscore_def sample_lower_def sample_pluralize_def)

section \<open>One run of the callback\<close>

text \<open>What a run of the callback that returns has done, step by step.\<close>

lemmas io_defs = bind_def call_def lift_def ret_def throw_def

lemma loadModel_success:
  assumes "loadModel env options directory models f h = (Inr models', h')"
  shows "\<exists>d models1 d' m0 m1 h1 m2 m3 m4.
     require_call env h directory f (Sequelize env) models (opt_context options) = Inr (Some d, models1)
   \<and> applySchema options (setupDefinition env d (nameForDefinition d f)) = Inr d'
   \<and> sequelize_define env (h @ [Require directory f (Sequelize env) models (opt_context options)])
        (nameForDefinition d f) (fieldmap d') (params d') = Inr m0
   \<and> removePrimaryKey env d' m0
        (h @ [Require directory f (Sequelize env) models (opt_context options),
              Define (nameForDefinition d f) (fieldmap d') (params d')]) = (Inr m1, h1)
   \<and> attachClassMethods d' m1 = Inr m2
   \<and> attachInstanceMethods d' m2 = Inr m3
   \<and> exposeDefinition d' m3 = Inr m4
   \<and> logLoaded env options (nameForDefinition d f) m4 h1 = (Inr (), h')
   \<and> models' = models1(nameForDefinition d f \<mapsto> m4)"
  using assms
  unfolding loadModel_def requireDefinition_def defineModel_def io_defs Let_def
  by (auto split: sum.splits prod.splits option.splits)

lemma removePrimaryKey_eq:
  "removePrimaryKey env d m h =
     (case js_get (params d) ''noPrimaryKey'' of
        Inl e \<Rightarrow> (Inl e, h)
      | Inr flag \<Rightarrow>
          if truthy flag then (removeAttribute env h m ''id'', h @ [RemoveAttribute m ''id''])
          else (Inr m, h))"
  by (simp add: removePrimaryKey_def io_defs split: sum.splits)

lemma logLoaded_trace:
  assumes "logLoaded env options n m h = (r, h')"
  shows "\<exists>evs. h' = h @ evs \<and> (\<forall>e \<in> set evs. (\<exists>x. e = GetTableName x) \<or> (\<exists>x s. e = Info x s))"
  using assms
  by (auto simp: logLoaded_def io_defs Let_def split: if_splits sum.splits)



lemma assignAll_static:
  "assignAll assignStatic es m = Inr m' \<Longrightarrow>
     attributes m' = attributes m \<and> readonly m' = readonly m
     \<and> (\<forall>k \<in> fst ` set es. k \<notin> readonly m)
     \<and> (\<forall>k. k \<noteq> ''prototype'' \<and> k \<noteq> ''__proto__'' \<longrightarrow>
           statics m' k = (case map_of (rev es) k of Some v \<Rightarrow> Some (Val v) | None \<Rightarrow> statics m k))
     \<and> statics m' ''prototype'' = statics m ''prototype''
     \<and> (''__proto__'' \<notin> fst ` set es \<longrightarrow> statics m' ''__proto__'' = statics m ''__proto__'')
     \<and> prototype m' = (case map_of (rev es) ''prototype'' of
                         Some v \<Rightarrow> Some (Replaced v) | None \<Rightarrow> prototype m)"
proof (induction es arbitrary: m)
  case Nil
  then show ?case by simp
next
  case (Cons e es)
  obtain k v where e: "e = (k, v)" by (cases e)
  from Cons.prems e obtain m1 where
    one: "assignStatic m k v = Inr m1" and rest: "assignAll assignStatic es m1 = Inr m'"
    by (auto split: sum.splits)
  note ih = Cons.IH [OF rest]
  from one have m1: "attributes m1 = attributes m" "readonly m1 = readonly m" "k \<notin> readonly m"
    "statics m1 = (if k = ''prototype'' \<or> k = ''__proto__'' \<and> \<not> setsPrototype v
                   then statics m else (statics m)(k \<mapsto> Val v))"
    "prototype m1 = (if k = ''prototype'' then Some (Replaced v) else prototype m)"
    by (auto simp: assignStatic_def split: if_splits)
  show ?case
    using ih m1 by (auto simp: e map_add_def split: option.splits)
qed


text \<open>The loop over the instance methods.\<close>

lemma assignAll_proto_frame:
  "assignAll assignProto es m = Inr m' \<Longrightarrow>
     attributes m' = attributes m \<and> readonly m' = readonly m \<and> statics m' = statics m"
proof (induction es arbitrary: m)
  case Nil
  then show ?case by simp
next
  case (Cons e es)
  obtain k v where e: "e = (k, v)" by (cases e)
  from Cons.prems e obtain m1 where
    one: "assignProto m k v = Inr m1" and rest: "assignAll assignProto es m1 = Inr m'"
    by (auto split: sum.splits)
  from one have "attributes m1 = attributes m \<and> readonly m1 = readonly m \<and> statics m1 = statics m"
    by (auto simp: assignProto_def split: option.splits proto.splits if_splits sum.splits)
  with Cons.IH [OF rest] show ?case by simp
qed



lemma attachClassMethods_methodsOf:
  "attachClassMethods d m = Inr m' \<Longrightarrow> assignAll assignStatic (methodsOf (classMethods d)) m = Inr m'"
  by (auto simp: attachClassMethods_def methodsOf_def split: if_splits sum.splits)

lemma attachInstanceMethods_methodsOf:
  "attachInstanceMethods d m = Inr m' \<Longrightarrow> assignAll assignProto (methodsOf (instanceMethods d)) m = Inr m'"
  by (auto simp: attachInstanceMethods_def methodsOf_def split: if_splits sum.splits)

lemma attach_frame:
  "attachClassMethods d m = Inr m' \<Longrightarrow> attributes m' = attributes m \<and> readonly m' = readonly m"
  "attachInstanceMethods d m = Inr m' \<Longrightarrow>
     attributes m' = attributes m \<and> readonly m' = readonly m \<and> statics m' = statics m"
proof -
  assume "attachClassMethods d m = Inr m'"
  from assignAll_static [OF attachClassMethods_methodsOf [OF this]]
  show "attributes m' = attributes m \<and> readonly m' = readonly m" by simp
next
  assume "attachInstanceMethods d m = Inr m'"
  from assignAll_proto_frame [OF attachInstanceMethods_methodsOf [OF this]]
  show "attributes m' = attributes m \<and> readonly m' = readonly m \<and> statics m' = statics m" .
qed

lemma exposeDefinition_eq:
  "exposeDefinition d m = Inr m' \<Longrightarrow>
     m' = m\<lparr>statics := (statics m)(''definition'' \<mapsto> Defn d)\<rparr> \<and> ''definition'' \<notin> readonly m"
  by (auto simp: exposeDefinition_def split: if_splits)

lemma applySchema_other_fields:
  "applySchema options d = Inr d' \<Longrightarrow>
     name d' = name d \<and> fieldmap d' = fieldmap d \<and> classMethods d' = classMethods d
     \<and> instanceMethods d' = instanceMethods d"
  by (auto simp: applySchema_def split: sum.splits if_splits)

lemmas sample_defs = sample_env_def sample_options_def sample_require_def sample_define_def
  sample_removeAttribute_def sample_underscore_def sample_lower_def sample_pluralize_def

lemmas loader_defs = loadModel_def requireDefinition_def defineModel_def removePrimaryKey_def
  attachClassMethods_def attachInstanceMethods_def assignStatic_def assignProto_def
  exposeDefinition_def logLoaded_def
  applySchema_def setupDefinition_def nameForDefinition_def nameFromFileName_def
  defaultTableName_def basename_def endsWith_def kModelFileNameSuffix_def io_defs Let_def

lemma sample_run_a:
  "\<exists>models' rest.
     loadModel sample_env sample_options ''models'' Map.empty ''a.model.js'' [] =
       (Inr models',
        Require ''models'' ''a.model.js'' (JObj []) Map.empty JNull
        # Define ''a'' (JObj [(''email'', JStr ''STRING'')])
            (JObj [(''tableName'', JStr ''as''), (''schema'', JStr ''public'')])
        # rest)
     \<and> models' ''a'' \<noteq> None"
  by (simp add: loader_defs sample_defs)

lemma sample_run_b:
  "\<exists>models' rest.
     loadModel sample_env sample_options ''models'' Map.empty ''b.model.js'' [] =
       (Inr models',
        Require ''models'' ''b.model.js'' (JObj []) Map.empty JNull
        # Define ''UserAccount'' (JObj [])
            (JObj [(''tableName'', JStr ''custom''), (''schema'', JStr ''private''),
                   (''noPrimaryKey'', JBool True)])
        # rest)"
  by (simp add: loader_defs sample_defs)

lemma basename_suffix:
  "endsWith f kModelFileNameSuffix \<Longrightarrow> nameFromFileName f @ kModelFileNameSuffix = f"
  by (auto simp: nameFromFileName_def basename_def endsWith_def kModelFileNameSuffix_def)
     (metis append_take_drop_id)

text \<open>
  C7. In a run of the callback that returns, the model's name is the definition's
  \<^verbatim>\<open>name\<close> when the definition has one, and otherwise the file's name without the
  suffix \<^verbatim>\<open>.model.js\<close> (put back, the suffix gives the file name again); \<^verbatim>\<open>define\<close> is
  called with this name right after the file's function, and the registry the file left
  gets the model under this name.
\<close>

theorem resolved_name:
  assumes "loadModel env options directory models f h = (Inr models', h')"
  shows "\<exists>d models1 fl p m rest.
      require_call env h directory f (Sequelize env) models (opt_context options) = Inr (Some d, models1)
    \<and> h' = h @ Require directory f (Sequelize env) models (opt_context options)
               # Define (nameForDefinition d f) fl p # rest
    \<and> models' = models1(nameForDefinition d f \<mapsto> m)
    \<and> nameForDefinition d f = (case name d of Some n \<Rightarrow> n | None \<Rightarrow> basename f ''.model.js'')
    \<and> (name d = None \<and> endsWith f ''.model.js'' \<longrightarrow> nameForDefinition d f @ ''.model.js'' = f)"
proof -
  from loadModel_success [OF assms] obtain d models1 d' m0 m1 h1 m4 where
    req: "require_call env h directory f (Sequelize env) models (opt_context options) = Inr (Some d, models1)"
    and rm: "removePrimaryKey env d' m0
        (h @ [Require directory f (Sequelize env) models (opt_context options),
              Define (nameForDefinition d f) (fieldmap d') (params d')]) = (Inr m1, h1)"
    and lg: "logLoaded env options (nameForDefinition d f) m4 h1 = (Inr (), h')"
    and res: "models' = models1(nameForDefinition d f \<mapsto> m4)"
    by (elim exE conjE)
  from rm obtain evs1 where h1: "h1 = (h @ [Require directory f (Sequelize env) models (opt_context options),
              Define (nameForDefinition d f) (fieldmap d') (params d')]) @ evs1"
    by (auto simp: removePrimaryKey_eq split: sum.splits if_splits)
  from logLoaded_trace [OF lg] obtain evs2 where h': "h' = h1 @ evs2" by blast
  have nm: "nameForDefinition d f = (case name d of Some n \<Rightarrow> n | None \<Rightarrow> basename f ''.model.js'')"
    by (simp add: nameForDefinition_def nameFromFileName_def kModelFileNameSuffix_def
        split: option.splits)
  have strip: "name d = None \<and> endsWith f ''.model.js'' \<longrightarrow> nameForDefinition d f @ ''.model.js'' = f"
    using basename_suffix [of f]
    by (auto simp: nameForDefinition_def kModelFileNameSuffix_def split: option.splits)
  from req h1 h' res nm strip show ?thesis
    by (intro exI [of _ d] exI [of _ models1] exI [of _ "fieldmap d'"] exI [of _ "params d'"]
        exI [of _ m4] exI [of _ "evs1 @ evs2"]) simp
qed

theorem resolved_name_witness:
  "\<exists>models' h' d models1 fl p m rest.
      loadModel sample_env sample_options ''models'' Map.empty ''a.model.js'' [] = (Inr models', h')
    \<and> require_call sample_env [] ''models'' ''a.model.js'' (Sequelize sample_env) Map.empty
          (opt_context sample_options) = Inr (Some d, models1)
    \<and> name d = None
    \<and> nameForDefinition d ''a.model.js'' = ''a''
    \<and> h' = Require ''models'' ''a.model.js'' (Sequelize sample_env) Map.empty
               (opt_context sample_options) # Define ''a'' fl p # rest
    \<and> models' = models1(''a'' \<mapsto> m)"
proof -
  obtain models' h' where
    run: "loadModel sample_env sample_options ''models'' Map.empty ''a.model.js'' [] = (Inr models', h')"
    using sample_run_a by blast
  from resolved_name [OF run] obtain d models1 fl p m rest where
    req: "require_call sample_env [] ''models'' ''a.model.js'' (Sequelize sample_env) Map.empty
          (opt_context sample_options) = Inr (Some d, models1)"
    and h': "h' = [] @ Require ''models'' ''a.model.js'' (Sequelize sample_env) Map.empty
               (opt_context sample_options) # Define (nameForDefinition d ''a.model.js'') fl p # rest"
    and res: "models' = models1(nameForDefinition d ''a.model.js'' \<mapsto> m)"
    and nm: "nameForDefinition d ''a.model.js''
        = (case name d of Some n \<Rightarrow> n | None \<Rightarrow> basename ''a.model.js'' ''.model.js'')"
    by blast
  from req have d: "name d = None"
    by (auto simp: sample_defs)
  with nm have a: "nameForDefinition d ''a.model.js'' = ''a''"
    by (simp add: basename_def endsWith_def)
  from run req d a h' res show ?thesis by auto
qed

text \<open>
  C6. In a run of the callback that returns, the parameters given to \<^verbatim>\<open>define\<close> decide:
  with a truthy \<^verbatim>\<open>noPrimaryKey\<close> the next call is \<^verbatim>\<open>removeAttribute('id')\<close> on the model
  that \<^verbatim>\<open>define\<close> returned, it is the only such call, and the registered model has the
  attributes this call left, so with an ORM whose \<^verbatim>\<open>removeAttribute\<close> removes the
  attribute the registered model has no attribute \<open>id\<close>; without the flag there is no
  such call and the registered model has the attributes \<^verbatim>\<open>define\<close> gave it.
\<close>

theorem noPrimaryKey_removal:
  assumes "loadModel env options directory models f h = (Inr models', h')"
  shows "\<exists>n fl p m0 m rest flag.
      h' = h @ Require directory f (Sequelize env) models (opt_context options) # Define n fl p # rest
    \<and> sequelize_define env (h @ [Require directory f (Sequelize env) models (opt_context options)])
          n fl p = Inr m0
    \<and> models' n = Some m
    \<and> js_get p ''noPrimaryKey'' = Inr flag
    \<and> (truthy flag \<longrightarrow>
          (\<exists>m1 rest'. rest = RemoveAttribute m0 ''id'' # rest'
             \<and> removeAttribute env
                  (h @ [Require directory f (Sequelize env) models (opt_context options),
                        Define n fl p]) m0 ''id'' = Inr m1
             \<and> attributes m = attributes m1
             \<and> (\<forall>x a. RemoveAttribute x a \<notin> set rest')))
    \<and> (\<not> truthy flag \<longrightarrow> (\<forall>x a. RemoveAttribute x a \<notin> set rest) \<and> attributes m = attributes m0)
    \<and> (truthy flag \<and> (\<forall>c x x'. removeAttribute env c x ''id'' = Inr x' \<longrightarrow> attributes x' ''id'' = None)
          \<longrightarrow> attributes m ''id'' = None)"
proof -
  let ?req = "Require directory f (Sequelize env) models (opt_context options)"
  from loadModel_success [OF assms] obtain d models1 d' m0 m1 h1 m2 m3 m4 where
    def: "sequelize_define env (h @ [?req]) (nameForDefinition d f) (fieldmap d') (params d') = Inr m0"
    and rm: "removePrimaryKey env d' m0
        (h @ [?req, Define (nameForDefinition d f) (fieldmap d') (params d')]) = (Inr m1, h1)"
    and cm: "attachClassMethods d' m1 = Inr m2"
    and im: "attachInstanceMethods d' m2 = Inr m3"
    and ex: "exposeDefinition d' m3 = Inr m4"
    and lg: "logLoaded env options (nameForDefinition d f) m4 h1 = (Inr (), h')"
    and res: "models' = models1(nameForDefinition d f \<mapsto> m4)"
    by (elim exE conjE)
  let ?n = "nameForDefinition d f"
  let ?m = m4
  let ?h2 = "h @ [?req, Define ?n (fieldmap d') (params d')]"
  from logLoaded_trace [OF lg] obtain evs where
    h': "h' = h1 @ evs" and evs: "\<forall>e \<in> set evs. (\<exists>x. e = GetTableName x) \<or> (\<exists>x s. e = Info x s)"
    by blast
  have noRm: "\<forall>x a. RemoveAttribute x a \<notin> set evs"
    using evs by auto
  have attrs: "attributes ?m = attributes m1"
    using attach_frame(1) [OF cm] attach_frame(2) [OF im] exposeDefinition_eq [OF ex] by simp
  from rm obtain flag where flag: "js_get (params d') ''noPrimaryKey'' = Inr flag"
    by (auto simp: removePrimaryKey_eq split: sum.splits)
  have yes: "truthy flag \<longrightarrow> h1 = ?h2 @ [RemoveAttribute m0 ''id'']
      \<and> removeAttribute env ?h2 m0 ''id'' = Inr m1"
    using rm flag by (auto simp: removePrimaryKey_eq)
  have no: "\<not> truthy flag \<longrightarrow> h1 = ?h2 \<and> m1 = m0"
    using rm flag by (auto simp: removePrimaryKey_eq)
  show ?thesis
  proof (cases "truthy flag")
    case True
    with yes h' have shape: "h' = h @ ?req # Define ?n (fieldmap d') (params d') # (RemoveAttribute m0 ''id'' # evs)"
      by simp
    from True yes have call: "removeAttribute env ?h2 m0 ''id'' = Inr m1" by simp
    show ?thesis
      using shape def res flag True call attrs noRm
      by (intro exI [of _ ?n] exI [of _ "fieldmap d'"] exI [of _ "params d'"] exI [of _ m0]
          exI [of _ ?m] exI [of _ "RemoveAttribute m0 ''id'' # evs"] exI [of _ flag]) auto
  next
    case False
    with no h' have shape: "h' = h @ ?req # Define ?n (fieldmap d') (params d') # evs"
      by simp
    from False no have "m1 = m0" by simp
    with attrs have "attributes ?m = attributes m0" by simp
    then show ?thesis
      using shape def res flag False noRm
      by (intro exI [of _ ?n] exI [of _ "fieldmap d'"] exI [of _ "params d'"] exI [of _ m0]
          exI [of _ ?m] exI [of _ evs] exI [of _ flag]) auto
  qed
qed

theorem noPrimaryKey_removal_witness:
  "\<exists>models' h' m x.
      loadModel sample_env sample_options ''models'' Map.empty ''b.model.js'' [] = (Inr models', h')
    \<and> models' ''UserAccount'' = Some m
    \<and> attributes m ''id'' = None
    \<and> RemoveAttribute x ''id'' \<in> set h'"
proof -
  let ?p = "JObj [(''tableName'', JStr ''custom''), (''schema'', JStr ''private''),
                   (''noPrimaryKey'', JBool True)]"
  obtain models' rest0 where
    run: "loadModel sample_env sample_options ''models'' Map.empty ''b.model.js'' [] =
       (Inr models',
        Require ''models'' ''b.model.js'' (JObj []) Map.empty JNull
        # Define ''UserAccount'' (JObj []) ?p # rest0)"
    using sample_run_b by blast
  have orm: "\<forall>c x x'. removeAttribute sample_env c x ''id'' = Inr x' \<longrightarrow> attributes x' ''id'' = None"
    by (auto simp: sample_defs)
  from noPrimaryKey_removal [OF run] obtain n fl p m0 m rest flag where
    shape: "Require ''models'' ''b.model.js'' (JObj []) Map.empty JNull
        # Define ''UserAccount'' (JObj []) ?p # rest0
      = [] @ Require ''models'' ''b.model.js'' (Sequelize sample_env) Map.empty (opt_context sample_options)
        # Define n fl p # rest"
    and reg: "models' n = Some m"
    and flag: "js_get p ''noPrimaryKey'' = Inr flag"
    and yes: "truthy flag \<longrightarrow>
          (\<exists>m1 rest'. rest = RemoveAttribute m0 ''id'' # rest'
             \<and> removeAttribute sample_env
                  ([] @ [Require ''models'' ''b.model.js'' (Sequelize sample_env) Map.empty (opt_context sample_options),
                        Define n fl p]) m0 ''id'' = Inr m1
             \<and> attributes m = attributes m1
             \<and> (\<forall>x a. RemoveAttribute x a \<notin> set rest'))"
    and gone: "truthy flag \<and> (\<forall>c x x'. removeAttribute sample_env c x ''id'' = Inr x' \<longrightarrow> attributes x' ''id'' = None)
          \<longrightarrow> attributes m ''id'' = None"
    by blast
  from shape have n: "n = ''UserAccount''" and p: "p = ?p" and rest: "rest = rest0" by simp_all
  from flag p have t: "truthy flag" by auto
  from gone t orm have "attributes m ''id'' = None" by blast
  moreover from yes t rest have "RemoveAttribute m0 ''id'' \<in> set rest0" by auto
  ultimately show ?thesis using run reg n by auto
qed

section \<open>The whole call\<close>

lemma bind_assoc: "bind (bind a f) g = bind a (\<lambda>x. bind (f x) g)"
  by (auto simp: bind_def fun_eq_iff split: prod.splits sum.splits)

lemma bind_ret [simp]: "bind (ret x) k = k x"
  by (auto simp: bind_def ret_def fun_eq_iff)

lemma forEach_append:
  "forEach body (xs @ ys) m = bind (forEach body xs m) (\<lambda>m'. forEach body ys m')"
proof (induction xs arbitrary: m)
  case Nil
  show ?case by simp
next
  case (Cons x xs)
  have "forEach body (xs @ ys) = (\<lambda>m. bind (forEach body xs m) (\<lambda>m'. forEach body ys m'))"
    by (rule ext) (simp add: Cons.IH)
  then show ?case by (simp add: bind_assoc)
qed

lemma loader_eq:
  "loader env options directory =
     (case readdirSync env [] directory of
        Inl e \<Rightarrow> (Inl e, [Readdir directory])
      | Inr listing \<Rightarrow>
          forEach (loadModel env options directory) (modelFileNamesOf listing) Map.empty
            [Readdir directory])"
  by (simp add: loader_def getModelFileNames_def io_defs split: sum.splits)

lemma loader_v1_eq:
  "loader_v1 env options directory =
     (case readdirSync env [] directory of
        Inl e \<Rightarrow> (Inl e, [Readdir directory])
      | Inr listing \<Rightarrow>
          forEach (loadModel_v1 env options directory) (modelFileNamesOf listing) Map.empty
            [Readdir directory])"
  by (simp add: loader_v1_def getModelFileNames_def io_defs split: sum.splits)

lemma loadModel_missing:
  assumes "require_call env h directory f (Sequelize env) models (opt_context options) = Inr (None, models')"
  shows "loadModel env options directory models f h =
     (Inl (Error (''Missing return value from model file, '' @ f)),
      h @ [Require directory f (Sequelize env) models (opt_context options)])"
  using assms by (simp add: loadModel_def requireDefinition_def io_defs)

text \<open>
  C5. When the files before \<open>f\<close> have been processed and the function of \<open>f\<close> returns a
  falsy value, the whole call of the loader throws the error
  \<^verbatim>\<open>Missing return value from model file, f\<close>: its result is that error and no registry,
  and the call of \<open>f\<close> is the last call made.
\<close>

theorem missing_return_value:
  assumes "readdirSync env [] directory = Inr listing"
    and "modelFileNamesOf listing = before @ f # after"
    and "forEach (loadModel env options directory) before Map.empty [Readdir directory]
           = (Inr models, calls)"
    and "require_call env calls directory f (Sequelize env) models (opt_context options)
           = Inr (None, models')"
  shows "loader env options directory =
     (Inl (Error (''Missing return value from model file, '' @ f)),
      calls @ [Require directory f (Sequelize env) models (opt_context options)])"
proof -
  have "loader env options directory =
      forEach (loadModel env options directory) (before @ f # after) Map.empty [Readdir directory]"
    using assms(1,2) by (simp add: loader_eq)
  also have "\<dots> = bind (loadModel env options directory models f)
                  (\<lambda>m'. forEach (loadModel env options directory) after m') calls"
    using assms(3) by (simp add: forEach_append bind_def)
  also have "\<dots> = (Inl (Error (''Missing return value from model file, '' @ f)),
      calls @ [Require directory f (Sequelize env) models (opt_context options)])"
    using loadModel_missing [OF assms(4)] by (simp add: bind_def)
  finally show ?thesis .
qed

lemma sample_files: "modelFileNamesOf [''c.model.js'', ''a.model.js''] = [''a.model.js'', ''c.model.js'']"
  "modelFileNamesOf [''b.model.js'', ''notes.txt'', ''a.model.js''] = [''a.model.js'', ''b.model.js'']"
  "modelFileNamesOf [''d.model.js'', ''a.model.js''] = [''a.model.js'', ''d.model.js'']"
  "modelFileNamesOf [''b.model.js''] = [''b.model.js'']"
  by (simp_all add: modelFileNamesOf_def endsWith_def kModelFileNameSuffix_def)

lemma broken_run_a:
  "\<exists>models calls.
     forEach (loadModel broken_env sample_options ''models'') [''a.model.js''] Map.empty
       [Readdir ''models''] = (Inr models, calls)"
  by (simp add: loader_defs sample_defs broken_env_def)

theorem missing_return_value_witness:
  "\<exists>models calls.
     forEach (loadModel broken_env sample_options ''models'') [''a.model.js''] Map.empty
       [Readdir ''models''] = (Inr models, calls)
   \<and> require_call broken_env calls ''models'' ''c.model.js'' (Sequelize broken_env) models
         (opt_context sample_options) = Inr (None, models)
   \<and> loader broken_env sample_options ''models'' =
       (Inl (Error ''Missing return value from model file, c.model.js''),
        calls @ [Require ''models'' ''c.model.js'' (Sequelize broken_env) models
                   (opt_context sample_options)])"
proof -
  obtain models calls where
    run: "forEach (loadModel broken_env sample_options ''models'') [''a.model.js''] Map.empty
       [Readdir ''models''] = (Inr models, calls)"
    using broken_run_a by (elim exE)
  have listing: "readdirSync broken_env [] ''models'' = Inr [''c.model.js'', ''a.model.js'']"
    by (simp add: broken_env_def)
  have files: "modelFileNamesOf [''c.model.js'', ''a.model.js''] = [''a.model.js''] @ ''c.model.js'' # []"
    by (simp add: sample_files)
  have req: "require_call broken_env calls ''models'' ''c.model.js'' (Sequelize broken_env) models
         (opt_context sample_options) = Inr (None, models)"
    by (simp add: broken_env_def sample_defs)
  from missing_return_value [OF listing files run req] run req show ?thesis
    by (intro exI [of _ models] exI [of _ calls]) simp
qed













section \<open>Methods\<close>







section \<open>The keys of the registry\<close>















section \<open>The two copies of the module\<close>

lemma loadModel_v1_eq:
  assumes "\<forall>h d f ns m c def m'. require_call env h d f ns m c = Inr (Some def, m')
      \<longrightarrow> (truthy (classMethods def) \<longrightarrow> entries (classMethods def) = Inr [])
        \<and> (truthy (instanceMethods def) \<longrightarrow> entries (instanceMethods def) = Inr [])"
  shows "loadModel_v1 env options directory models f h = loadModel env options directory models f h"
proof (cases "require_call env h directory f (Sequelize env) models (opt_context options)")
  case (Inl e)
  then show ?thesis
    by (simp add: loadModel_def loadModel_v1_def requireDefinition_def io_defs)
next
  case (Inr p)
  obtain returned models1 where p: "p = (returned, models1)" by (cases p)
  show ?thesis
  proof (cases returned)
    case None
    with Inr p show ?thesis
      by (simp add: loadModel_def loadModel_v1_def requireDefinition_def io_defs)
  next
    case (Some d)
    with assms Inr p have no: "truthy (classMethods d) \<longrightarrow> entries (classMethods d) = Inr []"
      "truthy (instanceMethods d) \<longrightarrow> entries (instanceMethods d) = Inr []"
      by blast+
    have att: "\<And>d' m. applySchema options (setupDefinition env d (nameForDefinition d f)) = Inr d'
        \<Longrightarrow> attachClassMethods d' m = Inr m \<and> attachInstanceMethods d' m = Inr m"
      using no applySchema_other_fields
      by (fastforce simp: attachClassMethods_def attachInstanceMethods_def setupDefinition_other_fields)
    show ?thesis
    proof (cases "applySchema options (setupDefinition env d (nameForDefinition d f))")
      case (Inl e)
      with Inr p Some show ?thesis
        by (simp add: loadModel_def loadModel_v1_def requireDefinition_def io_defs Let_def)
    next
      case (Inr d')
      note sch = this
      from att [OF sch] have "\<And>m. attachClassMethods d' m = Inr m" "\<And>m. attachInstanceMethods d' m = Inr m"
        by simp_all
      with \<open>require_call env h directory f (Sequelize env) models (opt_context options) = Inr p\<close>
        p Some sch show ?thesis
        by (simp add: loadModel_def loadModel_v1_def requireDefinition_def io_defs Let_def
            split: sum.splits prod.splits)
    qed
  qed
qed

lemma forEach_cong_body:
  "(\<And>m f h. body1 m f h = body2 m f h) \<Longrightarrow> forEach body1 fs m h = forEach body2 fs m h"
proof (induction fs arbitrary: m h)
  case Nil
  show ?case by simp
next
  case (Cons f fs)
  have "(\<lambda>m. forEach body1 fs m) = (\<lambda>m. forEach body2 fs m)"
    by (intro ext) (rule Cons.IH, rule Cons.prems)
  then show ?case by (simp add: bind_def Cons.prems fun_eq_iff)
qed

text \<open>
  C10 (amended). The two copies of the exported function give the same result and make
  the same calls whenever no model file returns a definition whose \<^verbatim>\<open>classMethods\<close> or
  \<^verbatim>\<open>instanceMethods\<close> has an entry. The second copy attaches such entries to the model
  and its prototype (lines 132-140) and the first does not, so on a definition with a
  class method the registries differ.
\<close>

theorem copies_agree_without_methods:
  assumes "\<forall>h d f ns m c def m'. require_call env h d f ns m c = Inr (Some def, m')
      \<longrightarrow> (truthy (classMethods def) \<longrightarrow> entries (classMethods def) = Inr [])
        \<and> (truthy (instanceMethods def) \<longrightarrow> entries (instanceMethods def) = Inr [])"
  shows "loader_v1 env options directory = loader env options directory"
proof -
  have "\<And>fs m h. forEach (loadModel_v1 env options directory) fs m h
      = forEach (loadModel env options directory) fs m h"
    by (rule forEach_cong_body) (rule loadModel_v1_eq [OF assms])
  then show ?thesis by (simp add: loader_eq loader_v1_eq split: sum.splits)
qed

lemma sample_loader:
  "\<exists>models calls r. loader sample_env sample_options ''models'' = (Inr models, calls)
     \<and> models ''a'' = Some r \<and> statics r ''findByEmail'' = Some (Val (JFun 1 []))"
  by (simp add: loader_eq sample_files loader_defs sample_defs)

lemma sample_loader_v1:
  "\<exists>models calls r. loader_v1 sample_env sample_options ''models'' = (Inr models, calls)
     \<and> models ''a'' = Some r \<and> statics r ''findByEmail'' = None"
  by (simp add: loader_v1_eq loadModel_v1_def sample_files loader_defs sample_defs)

theorem copies_differ_counterexample:
  "loader_v1 sample_env sample_options ''models'' \<noteq> loader sample_env sample_options ''models''"
proof
  assume eq: "loader_v1 sample_env sample_options ''models'' = loader sample_env sample_options ''models''"
  from sample_loader obtain models calls r where
    a: "loader sample_env sample_options ''models'' = (Inr models, calls)"
    "models ''a'' = Some r" "statics r ''findByEmail'' = Some (Val (JFun 1 []))"
    by (elim exE conjE)
  from sample_loader_v1 obtain models1 calls1 r1 where
    b: "loader_v1 sample_env sample_options ''models'' = (Inr models1, calls1)"
    "models1 ''a'' = Some r1" "statics r1 ''findByEmail'' = None"
    by (elim exE conjE)
  from eq a(1) b(1) have "models1 = models" by simp
  with a b show False by simp
qed

lemma plain_run:
  "\<exists>models calls. loader plain_env sample_options ''models'' = (Inr models, calls)
     \<and> models ''UserAccount'' \<noteq> None"
  by (simp add: loader_eq sample_files plain_env_def loader_defs sample_defs)

theorem copies_agree_without_methods_witness:
  "loader_v1 plain_env sample_options ''models'' = loader plain_env sample_options ''models''
   \<and> (\<exists>models calls. loader plain_env sample_options ''models'' = (Inr models, calls)
        \<and> models ''UserAccount'' \<noteq> None)"
proof -
  have files: "\<forall>h d f ns m c def m'. require_call plain_env h d f ns m c = Inr (Some def, m')
      \<longrightarrow> (truthy (classMethods def) \<longrightarrow> entries (classMethods def) = Inr [])
        \<and> (truthy (instanceMethods def) \<longrightarrow> entries (instanceMethods def) = Inr [])"
    by (auto simp: plain_env_def sample_defs split: if_splits)
  from copies_agree_without_methods [OF files, of sample_options "''models''"] plain_run
  show ?thesis by (intro conjI)
qed

end
